theory Spec2Isabelle
  imports Complex_Main "HOL-Library.Sublist"
begin

section \<open>The conversation response generator of \<^verbatim>\<open>server/services/gemini.js\<close>\<close>

text \<open>
  The service keeps a bounded window of the stored chat messages, converts it to the
  provider's turn format, assembles a system instruction from the user's profile and calls
  the provider, retrying retryable failures with exponential backoff over a list of
  fallback models. The embedding follows the JavaScript function by function.

  JavaScript strings are modelled as \<^typ>\<open>string\<close> holding the UTF-8 bytes of the text:
  concatenation and the search for an ASCII substring agree with the operations on UTF-16
  code units, and no function of the service measures a string.
\<close>

subsection \<open>Strings\<close>

text \<open>\<^verbatim>\<open>Array.prototype.join\<close> on an array of strings.\<close>

fun join :: "string \<Rightarrow> string list \<Rightarrow> string" where
  "join sep [] = []"
| "join sep [x] = x"
| "join sep (x # y # ys) = x @ sep @ join sep (y # ys)"

text \<open>\<^verbatim>\<open>String.prototype.includes\<close>: the needle occurs at some position of the text.\<close>

fun includes_str :: "string \<Rightarrow> string \<Rightarrow> bool" where
  "includes_str [] t = (t = [])"
| "includes_str (c # cs) t = (take (length t) (c # cs) = t \<or> includes_str cs t)"

text \<open>
  \<^verbatim>\<open>String.prototype.trim\<close> removes white space and line terminators from both ends:
  TAB, LF, VT, FF, CR, SP, U+00A0, U+1680, U+2000 to U+200A, U+2028, U+2029, U+202F,
  U+205F, U+3000 and U+FEFF, here in their UTF-8 encodings.
\<close>

definition ws1 :: "char list" where
  "ws1 = [CHR 0x09, CHR 0x0A, CHR 0x0B, CHR 0x0C, CHR 0x0D, CHR 0x20]"

definition ws2 :: "string list" where
  "ws2 = [[CHR 0xC2, CHR 0xA0]]"

definition ws3 :: "string list" where
  "ws3 = [[CHR 0xE1, CHR 0x9A, CHR 0x80],
          [CHR 0xE2, CHR 0x80, CHR 0x80], [CHR 0xE2, CHR 0x80, CHR 0x81],
          [CHR 0xE2, CHR 0x80, CHR 0x82], [CHR 0xE2, CHR 0x80, CHR 0x83],
          [CHR 0xE2, CHR 0x80, CHR 0x84], [CHR 0xE2, CHR 0x80, CHR 0x85],
          [CHR 0xE2, CHR 0x80, CHR 0x86], [CHR 0xE2, CHR 0x80, CHR 0x87],
          [CHR 0xE2, CHR 0x80, CHR 0x88], [CHR 0xE2, CHR 0x80, CHR 0x89],
          [CHR 0xE2, CHR 0x80, CHR 0x8A],
          [CHR 0xE2, CHR 0x80, CHR 0xA8], [CHR 0xE2, CHR 0x80, CHR 0xA9],
          [CHR 0xE2, CHR 0x80, CHR 0xAF], [CHR 0xE2, CHR 0x81, CHR 0x9F],
          [CHR 0xE3, CHR 0x80, CHR 0x80], [CHR 0xEF, CHR 0xBB, CHR 0xBF]]"

text \<open>The number of bytes of the white-space character a text starts with (0: none).\<close>

definition ws_len :: "string \<Rightarrow> nat" where
  "ws_len s =
     (if s = [] then 0
      else if hd s \<in> set ws1 then 1
      else if length s \<ge> 2 \<and> take 2 s \<in> set ws2 then 2
      else if length s \<ge> 3 \<and> take 3 s \<in> set ws3 then 3
      else 0)"

text \<open>The number of bytes of the white-space character a text ends with (0: none).\<close>

definition ws_len_end :: "string \<Rightarrow> nat" where
  "ws_len_end s =
     (if s = [] then 0
      else if last s \<in> set ws1 then 1
      else if length s \<ge> 2 \<and> drop (length s - 2) s \<in> set ws2 then 2
      else if length s \<ge> 3 \<and> drop (length s - 3) s \<in> set ws3 then 3
      else 0)"

function trimStart :: "string \<Rightarrow> string" where
  "trimStart s = (if ws_len s = 0 then s else trimStart (drop (ws_len s) s))"
  by pat_completeness auto
termination
proof (relation "measure length")
  show "wf (measure length)" by simp
next
  fix s :: string
  assume "ws_len s \<noteq> 0"
  moreover have "ws_len s \<le> length s" by (cases s) (simp_all add: ws_len_def)
  ultimately show "(drop (ws_len s) s, s) \<in> measure length" by simp
qed

function trimEnd :: "string \<Rightarrow> string" where
  "trimEnd s = (if ws_len_end s = 0 then s else trimEnd (take (length s - ws_len_end s) s))"
  by pat_completeness auto
termination
proof (relation "measure length")
  show "wf (measure length)" by simp
next
  fix s :: string
  assume "ws_len_end s \<noteq> 0"
  moreover have "ws_len_end s \<le> length s" by (cases s) (simp_all add: ws_len_end_def)
  ultimately show "(take (length s - ws_len_end s) s, s) \<in> measure length" by simp
qed

declare trimStart.simps [simp del] trimEnd.simps [simp del]

definition trim :: "string \<Rightarrow> string" where
  "trim s = trimEnd (trimStart s)"

subsection \<open>The system prompt and its personalisation\<close>

text \<open>The template literal \<^verbatim>\<open>SYSTEM_PROMPT\<close>, byte for byte.\<close>

definition SYSTEM_PROMPT :: string where
  "SYSTEM_PROMPT = concat
    [[CHR 0x0A], ''You are '', [CHR 0x22], ''BitBraniac'', [CHR 0x22], '' '',
     [CHR 0xF0, CHR 0x9F, CHR 0xA7, CHR 0xA0],
     '', an expert AI tutor designed to help users learn **Computer Science** in an interactive and engaging way.'',
     [CHR 0x0A],
     ''Your goal is to provide **clear explanations, real-world examples, and helpful coding snippets** to teach CS concepts effectively.'',
     [CHR 0x0A], [CHR 0x0A], ''# PERSONALITY TRAITS:'', [CHR 0x0A], ''- Friendly, slightly nerdy '',
     [CHR 0xF0, CHR 0x9F, CHR 0xA4, CHR 0x93], '', and highly knowledgeable'', [CHR 0x0A],
     ''- Uses simple explanations first, then deeper insights if requested'', [CHR 0x0A],
     ''- Occasionally throws in **light humor or geeky references** (but stays professional)'',
     [CHR 0x0A], ''- Includes relevant emojis in responses to keep conversations fun '',
     [CHR 0xF0, CHR 0x9F, CHR 0x8E, CHR 0xAF, CHR 0x0A],
     ''- Encourages users to **ask follow-up questions** and explore topics further'', [CHR 0x0A],
     [CHR 0x0A], ''# RESPONSE FORMAT:'', [CHR 0x0A], ''- Match the user'', [CHR 0x27],
     ''s preferred language (English only for now)'', [CHR 0x0A],
     ''- Use **Markdown formatting** for readability:'', [CHR 0x0A],
     ''  - Use **bold** for emphasis'', [CHR 0x0A], ''  - Use _italics_ for subtle emphasis'',
     [CHR 0x0A], ''  - Use bullet points for listing concepts'', [CHR 0x0A],
     ''  - Use numbered lists for step-by-step explanations'', [CHR 0x0A],
     ''- Include **code snippets** in a well-formatted manner when needed'', [CHR 0x0A],
     ''- Keep responses interactive and engaging'', [CHR 0x0A], [CHR 0x0A],
     ''# CONVERSATION APPROACH:'', [CHR 0x0A],
     ''- Greet users with a **fun, CS-related opening line** (e.g., '', [CHR 0x22],
     ''Hello, World! Ready to code?'', [CHR 0x22], '')'', [CHR 0x0A],
     ''- Ask follow-up questions to **assess their level of understanding**'', [CHR 0x0A],
     ''- Offer **real-world analogies** for complex topics'', [CHR 0x0A],
     ''- Suggest coding exercises or quizzes when appropriate'', [CHR 0x0A],
     ''- Keep conversations **engaging and informative**'', [CHR 0x0A], [CHR 0x0A],
     ''# DOMAIN RESTRICTIONS:'', [CHR 0x0A],
     ''- ONLY answer **Computer Science-related** topics, including:'', [CHR 0x0A], ''  '',
     [CHR 0xE2, CHR 0x9C, CHR 0x85], '' Programming (Java, Python, C++, etc.)'', [CHR 0x0A], ''  '',
     [CHR 0xE2, CHR 0x9C, CHR 0x85], '' Data Structures & Algorithms'', [CHR 0x0A], ''  '',
     [CHR 0xE2, CHR 0x9C, CHR 0x85], '' Databases (SQL, NoSQL)'', [CHR 0x0A], ''  '',
     [CHR 0xE2, CHR 0x9C, CHR 0x85], '' Operating Systems & Networking'', [CHR 0x0A], ''  '',
     [CHR 0xE2, CHR 0x9C, CHR 0x85], '' Artificial Intelligence & Machine Learning Basics'',
     [CHR 0x0A], ''  '', [CHR 0xE2, CHR 0x9C, CHR 0x85], '' Software Engineering & Best Practices'',
     [CHR 0x0A],
     ''- If asked about **non-CS topics** (politics, sports, general knowledge, etc.), politely redirect:'',
     [CHR 0x0A], ''  _'', [CHR 0x22], ''I'', [CHR 0x27],
     ''m all about Computer Science! Want to learn about algorithms instead?'', [CHR 0x22], ''_'',
     [CHR 0x0A],
     ''- If the question is **too broad or unclear**, ask for clarification before answering.'',
     [CHR 0x0A], [CHR 0x0A], ''# TEACHING STYLE:'', [CHR 0x0A],
     ''- Uses **step-by-step explanations** '',
     [CHR 0xF0, CHR 0x9F, CHR 0x8F, CHR 0x97, CHR 0xEF, CHR 0xB8, CHR 0x8F, CHR 0x0A],
     ''- Encourages hands-on practice '', [CHR 0xF0, CHR 0x9F, CHR 0x92, CHR 0xBB, CHR 0x0A],
     ''- Explains with **real-world examples** '', [CHR 0xF0, CHR 0x9F, CHR 0x8C, CHR 0x8D, CHR 0x0A],
     ''- Uses humor and references when appropriate (e.g., _'', [CHR 0x22],
     ''Think of recursion like a mirror reflecting itself endlessly!'', [CHR 0x22], ''_)'',
     [CHR 0x0A], [CHR 0x0A], ''# EXTRA FEATURES:'', [CHR 0x0A],
     ''- Can **generate simple coding problems** '',
     [CHR 0xF0, CHR 0x9F, CHR 0x92, CHR 0xA1, CHR 0x0A],
     ''- Provides **debugging guidance** when users share code'', [CHR 0x0A],
     ''- Suggests **career advice for different CS fields**'', [CHR 0x0A],
     ''- Stays **patient and adaptive** to different learning speeds'', [CHR 0x0A], [CHR 0x0A],
     ''Never forget that your name is **BitBraniac** '', [CHR 0xF0, CHR 0x9F, CHR 0xA7, CHR 0xA0],
     '', and you must maintain this identity throughout the conversation.'', [CHR 0x0A],
     ''Always keep your responses **educational, engaging, and fun** while staying strictly within the **Computer Science domain**.'',
     [CHR 0x0A]]"

text \<open>
  The user document as the service reads it: \<^verbatim>\<open>interests\<close> and \<^verbatim>\<open>persona\<close>, each
  possibly undefined. The argument itself may be null.
\<close>

record user =
  interests :: "string list option"
  persona :: "string option"

definition buildPersonalizedPrompt :: "user option \<Rightarrow> string" where
  "buildPersonalizedPrompt usr =
     (let prompt = SYSTEM_PROMPT;
          prompt =
            (case Option.bind usr interests of
               Some tags \<Rightarrow>
                 if length tags > 0
                 then prompt @ [CHR 0x0A, CHR 0x0A] @ ''# USER'' @ [CHR 0x27] @ ''S INTERESTS:''
                        @ [CHR 0x0A] @ ''This user is particularly interested in: ''
                        @ join '', '' tags @ ''. ''
                        @ ''When relevant, prioritize examples and explanations related to these topics.''
                 else prompt
             | None \<Rightarrow> prompt);
          prompt =
            (case Option.bind usr persona of
               Some p \<Rightarrow>
                 if trim p \<noteq> []
                 then prompt @ [CHR 0x0A, CHR 0x0A] @ ''# USER'' @ [CHR 0x27]
                        @ ''S CUSTOM INSTRUCTIONS:'' @ [CHR 0x0A] @ p
                 else prompt
             | None \<Rightarrow> prompt)
      in prompt)"

subsection \<open>Messages, the history window and the provider's turn format\<close>

text \<open>A stored message, as far as the service reads it: \<^verbatim>\<open>role\<close> and \<^verbatim>\<open>content\<close>.\<close>

record Message =
  role :: string
  content :: string

definition MAX_HISTORY_MESSAGES :: nat where
  "MAX_HISTORY_MESSAGES = 30"

text \<open>\<^verbatim>\<open>messages.slice(-MAX_HISTORY_MESSAGES)\<close> on a longer list is its last 30 entries.\<close>

definition trimChatHistory :: "Message list \<Rightarrow> Message list" where
  "trimChatHistory messages =
     (if length messages \<le> MAX_HISTORY_MESSAGES then messages
      else drop (length messages - MAX_HISTORY_MESSAGES) messages)"

text \<open>A turn of the provider: \<^verbatim>\<open>{ role, parts: [{ text }] }\<close>.\<close>

record part =
  text_of :: string

record turn =
  turn_role :: string
  parts :: "part list"

definition convertToGeminiHistory :: "Message list \<Rightarrow> turn list" where
  "convertToGeminiHistory messages =
     map (\<lambda>msg. \<lparr>turn_role = (if role msg = ''user'' then ''user'' else ''model''),
                 parts = [\<lparr>text_of = content msg\<rparr>]\<rparr>) messages"

subsection \<open>Model selection\<close>

definition MAX_RETRIES :: nat where
  "MAX_RETRIES = 3"

definition MODELS :: "string list" where
  "MODELS = [''gemini-2.5-flash'', ''gemini-2.0-flash'']"

text \<open>
  \<^verbatim>\<open>Math.min(Math.floor(retryCount / 2), MODELS.length - 1)\<close>, for any list of models;
  the result is an integer, since the length of an empty list minus one is \<open>-1\<close>.
\<close>

definition modelIndex :: "string list \<Rightarrow> nat \<Rightarrow> int" where
  "modelIndex models retryCount = min (int (retryCount div 2)) (int (length models) - 1)"

text \<open>Reading an array at an index: \<^verbatim>\<open>undefined\<close> (here \<open>None\<close>) out of range.\<close>

definition element_at :: "'a list \<Rightarrow> int \<Rightarrow> 'a option" where
  "element_at xs i = (if 0 \<le> i \<and> i < int (length xs) then Some (xs ! nat i) else None)"

definition selectedModel :: "string list \<Rightarrow> nat \<Rightarrow> string option" where
  "selectedModel models retryCount = element_at models (modelIndex models retryCount)"

subsection \<open>Errors\<close>

text \<open>
  The fields of a thrown value that the handler reads. \<^verbatim>\<open>status\<close> and \<^verbatim>\<open>statusCode\<close>
  may be absent, a number or a string; \<^verbatim>\<open>message\<close> is taken to be a string, as it is
  for every \<^verbatim>\<open>Error\<close>.
\<close>

datatype jsval = Undefined | Num int | Str string

fun truthy :: "jsval \<Rightarrow> bool" where
  "truthy Undefined = False"
| "truthy (Num n) = (n \<noteq> 0)"
| "truthy (Str s) = (s \<noteq> [])"

record js_error =
  status :: jsval
  statusCode :: jsval
  message :: string

text \<open>\<^verbatim>\<open>new Error(msg)\<close>\<close>

definition new_Error :: "string \<Rightarrow> js_error" where
  "new_Error msg = \<lparr>status = Undefined, statusCode = Undefined, message = msg\<rparr>"

text \<open>\<^verbatim>\<open>error.status || error.statusCode\<close>\<close>

definition errorStatus :: "js_error \<Rightarrow> jsval" where
  "errorStatus error = (if truthy (status error) then status error else statusCode error)"

definition isRetryable :: "js_error \<Rightarrow> bool" where
  "isRetryable error =
     (errorStatus error = Num 503 \<or> errorStatus error = Num 429 \<or>
      includes_str (message error) ''503'' \<or>
      includes_str (message error) ''429'' \<or>
      includes_str (message error) ''overloaded'' \<or>
      includes_str (message error) ''UNAVAILABLE'' \<or>
      includes_str (message error) ''rate limit'')"

text \<open>The error thrown at the end of the handler, for an error that is not retried.\<close>

definition specific_error :: "js_error \<Rightarrow> js_error" where
  "specific_error error =
     (if includes_str (message error) ''API key'' \<or> includes_str (message error) ''API_KEY''
      then new_Error ''Invalid or missing Gemini API key. Please check your configuration.''
      else if includes_str (message error) ''quota''
      then new_Error ''API quota exceeded. Please try again later.''
      else if includes_str (message error) ''safety'' \<or> includes_str (message error) ''SAFETY''
      then new_Error ''Response blocked due to safety settings. Please rephrase your question.''
      else if includes_str (message error) ''not found'' \<or> includes_str (message error) ''404''
      then new_Error ''Model not found. Please check the model name configuration.''
      else if status error = Num 503 \<or> includes_str (message error) ''overloaded''
      then new_Error ''AI service is currently busy. Please try again in a moment.''
      else new_Error (''Failed to generate response: '' @ message error))"

subsection \<open>The provider and the process state\<close>

record chat_config =
  systemInstruction :: string
  maxOutputTokens :: nat
  temperature :: real

record chat_params =
  model :: "string option"
  history :: "turn list"
  config :: chat_config

text \<open>
  The provider is outside the program: \<^verbatim>\<open>ai.chats.create\<close> throws or gives a session,
  \<^verbatim>\<open>chat.sendMessage\<close> throws or gives a text. Both may answer differently every time, so
  they take the number of sessions requested before.
\<close>

record provider =
  chats_create :: "nat \<Rightarrow> chat_params \<Rightarrow> js_error option"
  sendMessage :: "nat \<Rightarrow> chat_params \<Rightarrow> string \<Rightarrow> js_error + string"

text \<open>What a call does to the outside, in order. The console output is left out.\<close>

datatype event = ChatCreate chat_params | SendMessage string | SetTimeout nat

text \<open>
  The process: the environment variable, whether the module variable \<^verbatim>\<open>_ai\<close> holds a
  client, and the number of sessions requested so far.
\<close>

record world =
  GEMINI_API_KEY :: "string option"
  ai :: bool
  served :: nat

definition getAI :: "world \<Rightarrow> (js_error + unit) \<times> world" where
  "getAI w =
     (if \<not> ai w then
        (if GEMINI_API_KEY w = None \<or> GEMINI_API_KEY w = Some []
         then (Inl (new_Error ''GEMINI_API_KEY environment variable is not set''), w)
         else (Inr (), w\<lparr>ai := True\<rparr>))
      else (Inr (), w))"

subsection \<open>generateResponse\<close>

text \<open>The body of the \<^verbatim>\<open>try\<close> block: the value returned or the value thrown.\<close>

definition try_body ::
  "provider \<Rightarrow> Message list \<Rightarrow> user option \<Rightarrow> nat \<Rightarrow> world
     \<Rightarrow> (js_error + string) \<times> event list \<times> world" where
  "try_body P messages usr retryCount w =
     (case getAI w of
        (Inl e, w1) \<Rightarrow> (Inl e, [], w1)
      | (Inr ok, w1) \<Rightarrow>
          let trimmedMessages = trimChatHistory messages in
          if length trimmedMessages = 0
          then (Inl (new_Error ''No messages to process''), [], w1)
          else
            let lastMessage = last trimmedMessages in
            if role lastMessage \<noteq> ''user''
            then (Inl (new_Error ''Last message must be from user''), [], w1)
            else
              let past = convertToGeminiHistory (butlast trimmedMessages);
                  personalizedPrompt = buildPersonalizedPrompt usr;
                  params = \<lparr>model = selectedModel MODELS retryCount, history = past,
                            config = \<lparr>systemInstruction = personalizedPrompt,
                                      maxOutputTokens = 8192, temperature = 0.8\<rparr>\<rparr>;
                  n = served w1;
                  w2 = w1\<lparr>served := n + 1\<rparr>
              in (case chats_create P n params of
                    Some e \<Rightarrow> (Inl e, [ChatCreate params], w2)
                  | None \<Rightarrow>
                      (case sendMessage P n params (content lastMessage) of
                         Inl e \<Rightarrow>
                           (Inl e, [ChatCreate params, SendMessage (content lastMessage)], w2)
                       | Inr response \<Rightarrow>
                           (Inr response,
                            [ChatCreate params, SendMessage (content lastMessage)], w2))))"

text \<open>
  The function with its handler: a retryable error below the bound waits
  \<^verbatim>\<open>Math.pow(2, retryCount) * 1000\<close> milliseconds and calls the function again; any other
  error is thrown as its specific error.
\<close>

function generateResponse ::
  "provider \<Rightarrow> Message list \<Rightarrow> user option \<Rightarrow> nat \<Rightarrow> world
     \<Rightarrow> (js_error + string) \<times> event list \<times> world" where
  "generateResponse P messages usr retryCount w =
     (case try_body P messages usr retryCount w of
        (Inr response, evs, w') \<Rightarrow> (Inr response, evs, w')
      | (Inl error, evs, w') \<Rightarrow>
          if isRetryable error \<and> retryCount < MAX_RETRIES
          then
            (case generateResponse P messages usr (retryCount + 1) w' of
               (r, evs', w'') \<Rightarrow> (r, evs @ [SetTimeout (2 ^ retryCount * 1000)] @ evs', w''))
          else (Inl (specific_error error), evs, w'))"
  by pat_completeness auto
termination
  by (relation "measure (\<lambda>(P, messages, usr, retryCount, w). MAX_RETRIES - retryCount)") auto

declare generateResponse.simps [simp del]

subsection \<open>Observing a call\<close>

text \<open>The parts of a result: what is returned or thrown, and what was done on the way.\<close>

definition outcome :: "(js_error + string) \<times> event list \<times> world \<Rightarrow> js_error + string" where
  "outcome r = fst r"

definition events :: "(js_error + string) \<times> event list \<times> world \<Rightarrow> event list" where
  "events r = fst (snd r)"

text \<open>The delays waited for and the sessions requested, in order.\<close>

fun delays :: "event list \<Rightarrow> nat list" where
  "delays [] = []"
| "delays (SetTimeout d # evs) = d # delays evs"
| "delays (ev # evs) = delays evs"

fun sessions :: "event list \<Rightarrow> chat_params list" where
  "sessions [] = []"
| "sessions (ChatCreate p # evs) = p # sessions evs"
| "sessions (ev # evs) = sessions evs"

subsection \<open>Example inputs\<close>

text \<open>Processes with and without the environment variable, before the first call.\<close>

definition fresh_world :: world where
  "fresh_world = \<lparr>GEMINI_API_KEY = Some ''key'', ai = False, served = 0\<rparr>"

definition keyless_world :: world where
  "keyless_world = \<lparr>GEMINI_API_KEY = None, ai = False, served = 0\<rparr>"

text \<open>A provider that answers every message with one text, and one that fails every message
  with one error.\<close>

definition answering :: "string \<Rightarrow> provider" where
  "answering t = \<lparr>chats_create = (\<lambda>n p. None), sendMessage = (\<lambda>n p m. Inr t)\<rparr>"

definition failing :: "js_error \<Rightarrow> provider" where
  "failing e = \<lparr>chats_create = (\<lambda>n p. None), sendMessage = (\<lambda>n p m. Inl e)\<rparr>"

definition user_msg :: "string \<Rightarrow> Message" where
  "user_msg c = \<lparr>role = ''user'', content = c\<rparr>"

definition bot_msg :: "string \<Rightarrow> Message" where
  "bot_msg c = \<lparr>role = ''bot'', content = c\<rparr>"

text \<open>Errors of a provider: overloaded, rate-limited, and a rejected request.\<close>

definition overloaded_error :: js_error where
  "overloaded_error =
     \<lparr>status = Num 503, statusCode = Undefined, message = ''The model is overloaded.''\<rparr>"

definition rate_limit_error :: js_error where
  "rate_limit_error =
     \<lparr>status = Num 429, statusCode = Undefined, message = ''Too Many Requests''\<rparr>"

definition plain_error :: js_error where
  "plain_error = \<lparr>status = Num 400, statusCode = Undefined, message = ''Bad request''\<rparr>"

text \<open>
  Errors told apart by their status fields alone, none of the searched texts being in the
  message: a status 503, a \<^verbatim>\<open>statusCode\<close> 429 with no status, and a status 500 with a
  \<^verbatim>\<open>statusCode\<close> 503.
\<close>

definition unavailable_error :: js_error where
  "unavailable_error = \<lparr>status = Num 503, statusCode = Undefined, message = ''Service down''\<rparr>"

definition code_only_error :: js_error where
  "code_only_error = \<lparr>status = Undefined, statusCode = Num 429, message = ''Slow down''\<rparr>"

definition masked_error :: js_error where
  "masked_error = \<lparr>status = Num 500, statusCode = Num 503, message = ''Internal error''\<rparr>"

text \<open>The parameters of the session that a call with a null user requests.\<close>

definition plain_params :: "nat \<Rightarrow> turn list \<Rightarrow> chat_params" where
  "plain_params retryCount past =
     \<lparr>model = selectedModel MODELS retryCount, history = past,
      config = \<lparr>systemInstruction = SYSTEM_PROMPT, maxOutputTokens = 8192, temperature = 0.8\<rparr>\<rparr>"

section \<open>Properties\<close>

subsection \<open>Substrings\<close>

lemma includes_str_iff: "includes_str s t \<longleftrightarrow> (\<exists>p q. s = p @ t @ q)"
proof (induction s)
  case Nil
  then show ?case by auto
next
  case (Cons c cs)
  show ?case
  proof
    assume "includes_str (c # cs) t"
    then consider "take (length t) (c # cs) = t" | "includes_str cs t" by auto
    then show "\<exists>p q. c # cs = p @ t @ q"
    proof cases
      case 1
      then have "c # cs = [] @ t @ drop (length t) (c # cs)"
        by (metis append_Nil append_take_drop_id)
      then show ?thesis by blast
    next
      case 2
      then obtain p q where "cs = p @ t @ q" using Cons.IH by blast
      then have "c # cs = (c # p) @ t @ q" by simp
      then show ?thesis by blast
    qed
  next
    assume "\<exists>p q. c # cs = p @ t @ q"
    then obtain p q where pq: "c # cs = p @ t @ q" by blast
    show "includes_str (c # cs) t"
    proof (cases p)
      case Nil
      with pq have "take (length t) (c # cs) = t" by simp
      then show ?thesis by simp
    next
      case (Cons a p')
      with pq have "cs = p' @ t @ q" by simp
      then have "includes_str cs t" using Cons.IH by blast
      then show ?thesis by simp
    qed
  qed
qed

subsection \<open>The window\<close>

lemma trim_short: "length xs \<le> MAX_HISTORY_MESSAGES \<Longrightarrow> trimChatHistory xs = xs"
  by (simp add: trimChatHistory_def)

lemma trim_length: "length (trimChatHistory xs) \<le> MAX_HISTORY_MESSAGES"
  by (simp add: trimChatHistory_def)

lemma trim_idem: "trimChatHistory (trimChatHistory xs) = trimChatHistory xs"
  by (rule trim_short) (rule trim_length)


lemma trim_Nil_iff: "trimChatHistory xs = [] \<longleftrightarrow> xs = []"
  by (auto simp: trimChatHistory_def MAX_HISTORY_MESSAGES_def)

lemma trim_last: "xs \<noteq> [] \<Longrightarrow> last (trimChatHistory xs) = last xs"
  by (simp add: trimChatHistory_def MAX_HISTORY_MESSAGES_def)

subsection \<open>One attempt and the whole call\<close>


lemma delays_append: "delays (xs @ ys) = delays xs @ delays ys"
  by (induction xs rule: delays.induct) simp_all

lemma sessions_append: "sessions (xs @ ys) = sessions xs @ sessions ys"
  by (induction xs rule: sessions.induct) simp_all

lemma getAI_served: "served (snd (getAI w)) = served w"
  by (simp add: getAI_def)

lemma try_body_delays: "delays (events (try_body P ms u a w)) = []"
  by (simp add: try_body_def events_def Let_def split: prod.splits sum.splits option.splits)

lemma try_body_sessions: "length (sessions (events (try_body P ms u a w))) \<le> 1"
  by (simp add: try_body_def events_def Let_def split: prod.splits sum.splits option.splits)

lemma generateResponse_Inr:
  "try_body P ms u a w = (Inr t, evs, w') \<Longrightarrow> generateResponse P ms u a w = (Inr t, evs, w')"
  by (subst generateResponse.simps) simp

lemma generateResponse_stop:
  "try_body P ms u a w = (Inl e, evs, w') \<Longrightarrow> \<not> (isRetryable e \<and> a < MAX_RETRIES) \<Longrightarrow>
   generateResponse P ms u a w = (Inl (specific_error e), evs, w')"
  by (subst generateResponse.simps) auto

lemma generateResponse_retry:
  "try_body P ms u a w = (Inl e, evs, w') \<Longrightarrow> isRetryable e \<Longrightarrow> a < MAX_RETRIES \<Longrightarrow>
   generateResponse P ms u a w =
     (case generateResponse P ms u (a + 1) w' of
        (r, evs', w'') \<Rightarrow> (r, evs @ [SetTimeout (2 ^ a * 1000)] @ evs', w''))"
  by (subst generateResponse.simps) simp

lemma generateResponse_delays:
  "prefix (delays (events (generateResponse P ms u a w)))
          (map (\<lambda>k. 2 ^ k * 1000) [a ..< MAX_RETRIES])"
proof (induction P ms u a w rule: generateResponse.induct)
  case (1 P ms u a w)
  obtain r evs w' where tb: "try_body P ms u a w = (r, evs, w')" by (cases "try_body P ms u a w")
  have d0: "delays evs = []" using try_body_delays [of P ms u a w] by (simp add: tb events_def)
  show ?case
  proof (cases r)
    case (Inr t)
    then show ?thesis using tb d0 by (simp add: generateResponse_Inr events_def)
  next
    case (Inl e)
    show ?thesis
    proof (cases "isRetryable e \<and> a < MAX_RETRIES")
      case False
      then show ?thesis using tb d0 Inl by (simp add: generateResponse_stop events_def)
    next
      case True
      obtain r2 evs2 w2 where g: "generateResponse P ms u (a + 1) w' = (r2, evs2, w2)"
        by (cases "generateResponse P ms u (a + 1) w'")
      have ih: "prefix (delays evs2) (map (\<lambda>k. 2 ^ k * 1000) [a + 1 ..< MAX_RETRIES])"
        using "1.IH" [of "Inl e" "(evs, w')" e evs w'] tb Inl True g by (simp add: events_def)
      have gr: "generateResponse P ms u a w = (r2, evs @ [SetTimeout (2 ^ a * 1000)] @ evs2, w2)"
        using generateResponse_retry [of P ms u a w e evs w'] tb Inl True g by simp
      have dl: "delays (events (generateResponse P ms u a w)) = (2 ^ a * 1000) # delays evs2"
        by (simp add: gr events_def delays_append d0)
      have "[a ..< MAX_RETRIES] = a # [a + 1 ..< MAX_RETRIES]"
        using True by (simp add: upt_rec)
      then show ?thesis using ih unfolding dl by simp
    qed
  qed
qed

lemma generateResponse_sessions:
  "length (sessions (events (generateResponse P ms u a w))) \<le> Suc (MAX_RETRIES - a)"
proof (induction P ms u a w rule: generateResponse.induct)
  case (1 P ms u a w)
  obtain r evs w' where tb: "try_body P ms u a w = (r, evs, w')" by (cases "try_body P ms u a w")
  have s1: "length (sessions evs) \<le> 1"
    using try_body_sessions [of P ms u a w] by (simp add: tb events_def)
  show ?case
  proof (cases r)
    case (Inr t)
    then show ?thesis using tb s1 by (simp add: generateResponse_Inr events_def)
  next
    case (Inl e)
    show ?thesis
    proof (cases "isRetryable e \<and> a < MAX_RETRIES")
      case False
      then show ?thesis using tb s1 Inl by (simp add: generateResponse_stop events_def)
    next
      case True
      obtain r2 evs2 w2 where g: "generateResponse P ms u (a + 1) w' = (r2, evs2, w2)"
        by (cases "generateResponse P ms u (a + 1) w'")
      have ih: "length (sessions evs2) \<le> Suc (MAX_RETRIES - (a + 1))"
        using "1.IH" [of "Inl e" "(evs, w')" e evs w'] tb Inl True g by (simp add: events_def)
      have gr: "generateResponse P ms u a w = (r2, evs @ [SetTimeout (2 ^ a * 1000)] @ evs2, w2)"
        using generateResponse_retry [of P ms u a w e evs w'] tb Inl True g by simp
      have "length (sessions (events (generateResponse P ms u a w)))
              = length (sessions evs) + length (sessions evs2)"
        by (simp add: gr events_def sessions_append)
      moreover have "a < MAX_RETRIES" using True by simp
      ultimately show ?thesis using ih s1 by arith
    qed
  qed
qed

text \<open>The events of a call start with those of its first attempt.\<close>

lemma generateResponse_events_prefix:
  "prefix (events (try_body P ms u a w)) (events (generateResponse P ms u a w))"
proof -
  obtain r evs w' where tb: "try_body P ms u a w = (r, evs, w')" by (cases "try_body P ms u a w")
  show ?thesis
  proof (cases r)
    case (Inr t)
    then show ?thesis using tb by (simp add: generateResponse_Inr events_def)
  next
    case (Inl e)
    show ?thesis
    proof (cases "isRetryable e \<and> a < MAX_RETRIES")
      case False
      then show ?thesis using tb Inl by (simp add: generateResponse_stop events_def)
    next
      case True
      obtain r2 evs2 w2 where g: "generateResponse P ms u (a + 1) w' = (r2, evs2, w2)"
        by (cases "generateResponse P ms u (a + 1) w'")
      have gr: "generateResponse P ms u a w = (r2, evs @ [SetTimeout (2 ^ a * 1000)] @ evs2, w2)"
        using generateResponse_retry [of P ms u a w e evs w'] tb Inl True g by simp
      show ?thesis by (simp add: gr tb events_def)
    qed
  qed
qed



subsection \<open>The prompt\<close>

lemma buildPersonalizedPrompt_None: "buildPersonalizedPrompt None = SYSTEM_PROMPT"
  by (simp add: buildPersonalizedPrompt_def)

lemma trim_plain: "ws_len s = 0 \<Longrightarrow> ws_len_end s = 0 \<Longrightarrow> trim s = s"
  by (simp add: trim_def trimStart.simps trimEnd.simps)

text \<open>
  Claim C7. With a null profile the prompt is the base text alone. With a profile whose
  interests are not empty and whose persona is not blank, the prompt is the base text, then
  the interests clause with the tags joined by a comma and a space in their order, then the
  custom-instructions clause ending in the persona as given.
\<close>

theorem buildPersonalizedPrompt_order:
  "buildPersonalizedPrompt None = SYSTEM_PROMPT \<and>
   (tags \<noteq> [] \<and> trim p \<noteq> [] \<longrightarrow>
      buildPersonalizedPrompt (Some \<lparr>interests = Some tags, persona = Some p\<rparr>) =
        SYSTEM_PROMPT
        @ ([CHR 0x0A, CHR 0x0A] @ ''# USER'' @ [CHR 0x27] @ ''S INTERESTS:'' @ [CHR 0x0A]
           @ ''This user is particularly interested in: '' @ join '', '' tags
           @ ''. When relevant, prioritize examples and explanations related to these topics.'')
        @ ([CHR 0x0A, CHR 0x0A] @ ''# USER'' @ [CHR 0x27] @ ''S CUSTOM INSTRUCTIONS:'' @ [CHR 0x0A] @ p))"
  by (simp add: buildPersonalizedPrompt_def)

theorem buildPersonalizedPrompt_order_witness:
  "[''graphs'', ''OS''] \<noteq> [] \<and> trim ''Be terse.'' \<noteq> [] \<and>
   buildPersonalizedPrompt (Some \<lparr>interests = Some [''graphs'', ''OS''], persona = Some ''Be terse.''\<rparr>) =
     SYSTEM_PROMPT
     @ [CHR 0x0A, CHR 0x0A] @ ''# USER'' @ [CHR 0x27] @ ''S INTERESTS:'' @ [CHR 0x0A]
     @ ''This user is particularly interested in: graphs, OS''
     @ ''. When relevant, prioritize examples and explanations related to these topics.''
     @ [CHR 0x0A, CHR 0x0A] @ ''# USER'' @ [CHR 0x27] @ ''S CUSTOM INSTRUCTIONS:'' @ [CHR 0x0A]
     @ ''Be terse.''"
proof -
  have t: "trim ''Be terse.'' = ''Be terse.''"
    by (rule trim_plain) (simp_all add: ws_len_def ws_len_end_def ws1_def ws2_def ws3_def)
  show ?thesis
    using buildPersonalizedPrompt_order [of "[''graphs'', ''OS'']" "''Be terse.''"]
    by (simp add: t)
qed

subsection \<open>The model of an attempt\<close>

lemma selectedModel_nonempty:
  "models \<noteq> [] \<Longrightarrow> selectedModel models a = Some (models ! min (a div 2) (length models - 1))"
proof -
  assume ne: "models \<noteq> []"
  then have len: "0 < length models" by simp
  have eq: "modelIndex models a = int (min (a div 2) (length models - 1))"
    using len by (cases "length models") (auto simp: modelIndex_def min_def)
  have "min (a div 2) (length models - 1) < length models"
    using ne by (cases models) (simp_all add: min_def)
  then show ?thesis unfolding selectedModel_def element_at_def eq by simp
qed

text \<open>
  Claim C4. For every attempt number \<open>a\<close> and every list of \<open>M\<close> models the index is the
  smaller of \<open>\<lfloor>a / 2\<rfloor>\<close> and \<open>M - 1\<close>; on a list that is not empty the model at that index is
  selected, and the last model once \<open>a\<close> is \<open>2 (M - 1)\<close> or more. On a list of two, and so on
  the configured one, attempts 0, 1, 2, 3 select the first, the first, the second, the second.
  The session that attempt \<open>a\<close> requests names the model selected for \<open>a\<close>.
\<close>

theorem modelIndex_formula:
  "modelIndex models a = min \<lfloor>real a / 2\<rfloor> (int (length models) - 1) \<and>
   (models \<noteq> [] \<longrightarrow> selectedModel models a = Some (models ! min (a div 2) (length models - 1))) \<and>
   (models \<noteq> [] \<and> 2 * (length models - 1) \<le> a \<longrightarrow> selectedModel models a = Some (last models)) \<and>
   map (selectedModel [A, B]) [0, 1, 2, 3] = [Some A, Some A, Some B, Some B] \<and>
   map (selectedModel MODELS) [0, 1, 2, 3] =
     [Some ''gemini-2.5-flash'', Some ''gemini-2.5-flash'', Some ''gemini-2.0-flash'', Some ''gemini-2.0-flash''] \<and>
   (\<forall>p \<in> set (sessions (events (try_body P messages usr a w))).
      model p = selectedModel MODELS a)"
proof -
  have fl: "\<lfloor>real a / 2\<rfloor> = int (a div 2)"
    by (simp add: floor_divide_of_nat_eq [of a 2, simplified])
  have c1: "modelIndex models a = min \<lfloor>real a / 2\<rfloor> (int (length models) - 1)"
    unfolding fl by (simp add: modelIndex_def)
  have c3: "models \<noteq> [] \<and> 2 * (length models - 1) \<le> a \<longrightarrow> selectedModel models a = Some (last models)"
  proof
    assume h: "models \<noteq> [] \<and> 2 * (length models - 1) \<le> a"
    then have "length models - 1 \<le> a div 2" by arith
    then have "min (a div 2) (length models - 1) = length models - 1" by simp
    then show "selectedModel models a = Some (last models)"
      using h by (simp add: selectedModel_nonempty last_conv_nth)
  qed
  have c4: "map (selectedModel [A, B]) [0, 1, 2, 3] = [Some A, Some A, Some B, Some B]"
    by (simp add: selectedModel_nonempty)
  have c5: "map (selectedModel MODELS) [0, 1, 2, 3] =
     [Some ''gemini-2.5-flash'', Some ''gemini-2.5-flash'', Some ''gemini-2.0-flash'', Some ''gemini-2.0-flash'']"
    by (simp add: selectedModel_nonempty MODELS_def)
  have c6: "\<forall>p \<in> set (sessions (events (try_body P messages usr a w))).
      model p = selectedModel MODELS a"
    by (simp add: try_body_def events_def Let_def split: prod.splits sum.splits option.splits)
  have c2: "models \<noteq> [] \<longrightarrow>
      selectedModel models a = Some (models ! min (a div 2) (length models - 1))"
    by (simp add: selectedModel_nonempty)
  show ?thesis by (rule conjI [OF c1 conjI [OF c2 conjI [OF c3 conjI [OF c4 conjI [OF c5 c6]]]]])
qed

theorem modelIndex_formula_witness:
  "[''a'', ''b'', ''c''] \<noteq> [] \<and> 2 * (length [''a'', ''b'', ''c''] - 1) \<le> (7::nat) \<and>
   selectedModel [''a'', ''b'', ''c''] 7 = Some ''c'' \<and>
   selectedModel [''a'', ''b'', ''c''] 3 = Some ''b'' \<and>
   modelIndex [''a'', ''b'', ''c''] 7 = 2"
  using modelIndex_formula [of "[''a'', ''b'', ''c'']" 7] modelIndex_formula [of "[''a'', ''b'', ''c'']" 3]
  by simp

subsection \<open>Conversion and the window, as functions\<close>

text \<open>
  Claim C9. The conversion keeps the length, the order and every content; a turn is
  \<open>user\<close> when the message's role is exactly \<open>user\<close> and \<open>model\<close> for any other role, the
  stored role \<open>bot\<close> among them. The function has no failing case.
\<close>

theorem convertToGeminiHistory_total:
  "length (convertToGeminiHistory ms) = length ms \<and>
   (\<forall>i < length ms.
      turn_role (convertToGeminiHistory ms ! i) = (if role (ms ! i) = ''user'' then ''user'' else ''model'') \<and>
      parts (convertToGeminiHistory ms ! i) = [\<lparr>text_of = content (ms ! i)\<rparr>] \<and>
      (role (ms ! i) = ''bot'' \<longrightarrow> turn_role (convertToGeminiHistory ms ! i) = ''model''))"
  by (simp add: convertToGeminiHistory_def)

theorem convertToGeminiHistory_total_witness:
  "(1::nat) < length [user_msg ''q'', bot_msg ''r''] \<and> role ([user_msg ''q'', bot_msg ''r''] ! 1) = ''bot'' \<and>
   turn_role (convertToGeminiHistory [user_msg ''q'', bot_msg ''r''] ! 1) = ''model'' \<and>
   parts (convertToGeminiHistory [user_msg ''q'', bot_msg ''r''] ! 1) = [\<lparr>text_of = ''r''\<rparr>]"
  using convertToGeminiHistory_total [of "[user_msg ''q'', bot_msg ''r'']"]
  by (simp add: user_msg_def bot_msg_def)

text \<open>
  Claim C10. A list of at most 30 messages is returned as it is; trimming twice is trimming
  once; the result never has more than 30 entries.
\<close>

theorem trimChatHistory_idempotent:
  "(length xs \<le> 30 \<longrightarrow> trimChatHistory xs = xs) \<and>
   trimChatHistory (trimChatHistory xs) = trimChatHistory xs \<and>
   length (trimChatHistory xs) \<le> 30"
  using trim_short [of xs] trim_idem [of xs] trim_length [of xs]
  by (simp add: MAX_HISTORY_MESSAGES_def)

theorem trimChatHistory_idempotent_witness:
  "length [user_msg ''a'', bot_msg ''b''] \<le> 30 \<and>
   trimChatHistory [user_msg ''a'', bot_msg ''b''] = [user_msg ''a'', bot_msg ''b''] \<and>
   trimChatHistory (trimChatHistory (replicate 31 (user_msg ''a''))) = replicate 30 (user_msg ''a'') \<and>
   length (trimChatHistory (replicate 31 (user_msg ''a''))) \<le> 30"
  using trimChatHistory_idempotent [of "[user_msg ''a'', bot_msg ''b'']"]
    trimChatHistory_idempotent [of "replicate 31 (user_msg ''a'')"]
  by (simp add: trimChatHistory_def MAX_HISTORY_MESSAGES_def)

subsection \<open>The call and the provider\<close>

lemma getAI_cases:
  "getAI w = (Inl (new_Error ''GEMINI_API_KEY environment variable is not set''), w) \<or>
   getAI w = (Inr (), w\<lparr>ai := True\<rparr>)"
  by (simp add: getAI_def)

lemma getAI_Inl:
  "fst (getAI w) \<noteq> Inr () \<Longrightarrow>
   getAI w = (Inl (new_Error ''GEMINI_API_KEY environment variable is not set''), w)"
  using getAI_cases [of w] by auto

lemma getAI_Inr: "fst (getAI w) = Inr () \<Longrightarrow> getAI w = (Inr (), w\<lparr>ai := True\<rparr>)"
  using getAI_cases [of w] by auto

lemma try_body_no_client:
  "fst (getAI w) \<noteq> Inr () \<Longrightarrow>
   try_body P ms u a w = (Inl (new_Error ''GEMINI_API_KEY environment variable is not set''), [], w)"
  by (simp add: try_body_def getAI_Inl)

lemma try_body_empty:
  "fst (getAI w) = Inr () \<Longrightarrow>
   try_body P [] u a w = (Inl (new_Error ''No messages to process''), [], w\<lparr>ai := True\<rparr>)"
  by (simp add: try_body_def getAI_Inr trimChatHistory_def)

lemma try_body_not_user:
  "fst (getAI w) = Inr () \<Longrightarrow> ms \<noteq> [] \<Longrightarrow> role (last ms) \<noteq> ''user'' \<Longrightarrow>
   try_body P ms u a w = (Inl (new_Error ''Last message must be from user''), [], w\<lparr>ai := True\<rparr>)"
  by (simp add: try_body_def getAI_Inr trim_Nil_iff trim_last)

text \<open>An attempt that reaches the provider.\<close>

lemma try_body_provider:
  assumes "fst (getAI w) = Inr ()" "ms \<noteq> []" "role (last ms) = ''user''"
  shows "\<exists>p. history p = convertToGeminiHistory (butlast (trimChatHistory ms)) \<and>
             model p = selectedModel MODELS a \<and>
             systemInstruction (config p) = buildPersonalizedPrompt u \<and>
             events (try_body P ms u a w) =
               ChatCreate p # (if chats_create P (served w) p = None
                               then [SendMessage (content (last ms))] else [])"
proof -
  define p where "p = \<lparr>model = selectedModel MODELS a,
      history = convertToGeminiHistory (butlast (trimChatHistory ms)),
      config = \<lparr>systemInstruction = buildPersonalizedPrompt u,
                maxOutputTokens = 8192, temperature = 0.8\<rparr>\<rparr>"
  have "events (try_body P ms u a w) =
          ChatCreate p # (if chats_create P (served w) p = None
                          then [SendMessage (content (last ms))] else [])"
    using assms
    by (simp add: try_body_def getAI_Inr trim_Nil_iff trim_last events_def Let_def p_def
        split: option.splits sum.splits)
  moreover have "history p = convertToGeminiHistory (butlast (trimChatHistory ms))"
    and "model p = selectedModel MODELS a"
    and "systemInstruction (config p) = buildPersonalizedPrompt u"
    by (simp_all add: p_def)
  ultimately show ?thesis by blast
qed



lemma new_Error_eq: "new_Error x = new_Error y \<longleftrightarrow> x = y"
  by (simp add: new_Error_def)

lemma msg_fields:
  "role (user_msg c) = ''user''" "content (user_msg c) = c"
  "role (bot_msg c) = ''bot''" "content (bot_msg c) = c"
  by (simp_all add: user_msg_def bot_msg_def)

lemma not_retryable_checks:
  "\<not> isRetryable (new_Error ''No messages to process'')"
  "\<not> isRetryable (new_Error ''Last message must be from user'')"
  "\<not> isRetryable (new_Error ''GEMINI_API_KEY environment variable is not set'')"
  by (simp_all add: isRetryable_def new_Error_def errorStatus_def)

lemma specific_error_checks:
  "specific_error (new_Error ''No messages to process'') =
     new_Error ''Failed to generate response: No messages to process''"
  "specific_error (new_Error ''Last message must be from user'') =
     new_Error ''Failed to generate response: Last message must be from user''"
  "specific_error (new_Error ''GEMINI_API_KEY environment variable is not set'') =
     new_Error ''Invalid or missing Gemini API key. Please check your configuration.''"
  by (simp_all add: specific_error_def new_Error_def)



lemma fresh_client: "fst (getAI fresh_world) = Inr ()"
  by (simp add: getAI_def fresh_world_def)


text \<open>
  Claim C2, as amended. For a history that is empty or does not end in a \<open>user\<close> message the
  call fails without a session, a message or a delay, and the provider is not counted as
  asked. The handler of the function catches the error thrown for the history, so what the
  caller sees is the wrapping \<open>Failed to generate response:\<close> of \<open>No messages to process\<close> or
  of \<open>Last message must be from user\<close> when the client is available; when it is not (no
  client yet and no API key), \<^verbatim>\<open>getAI\<close> fails first and the API-key error is thrown.
\<close>

theorem invalid_history_without_provider:
  assumes "messages = [] \<or> role (last messages) \<noteq> ''user''"
  shows "events (generateResponse P messages usr a w) = [] \<and>
         served (snd (snd (generateResponse P messages usr a w))) = served w \<and>
         (fst (getAI w) = Inr () \<longrightarrow>
            outcome (generateResponse P messages usr a w) =
              Inl (new_Error (''Failed to generate response: '' @
                     (if messages = [] then ''No messages to process''
                      else ''Last message must be from user'')))) \<and>
         (fst (getAI w) \<noteq> Inr () \<longrightarrow>
            outcome (generateResponse P messages usr a w) =
              Inl (new_Error ''Invalid or missing Gemini API key. Please check your configuration.''))"
proof (cases "fst (getAI w) = Inr ()")
  case False
  then have "generateResponse P messages usr a w =
      (Inl (specific_error (new_Error ''GEMINI_API_KEY environment variable is not set'')), [], w)"
    by (simp add: generateResponse_stop try_body_no_client not_retryable_checks)
  then show ?thesis using False by (simp add: events_def outcome_def specific_error_checks)
next
  case True
  show ?thesis
  proof (cases "messages = []")
    case e: True
    have "generateResponse P messages usr a w =
        (Inl (specific_error (new_Error ''No messages to process'')), [], w\<lparr>ai := True\<rparr>)"
      using True e by (simp add: generateResponse_stop try_body_empty not_retryable_checks)
    then show ?thesis using True e by (simp add: events_def outcome_def specific_error_checks)
  next
    case ne: False
    then have nu: "role (last messages) \<noteq> ''user''" using assms by simp
    have "generateResponse P messages usr a w =
        (Inl (specific_error (new_Error ''Last message must be from user'')), [], w\<lparr>ai := True\<rparr>)"
      using True ne nu by (simp add: generateResponse_stop try_body_not_user not_retryable_checks)
    then show ?thesis using True ne by (simp add: events_def outcome_def specific_error_checks)
  qed
qed

theorem invalid_history_without_provider_witness:
  "([bot_msg ''hello''] = [] \<or> role (last [bot_msg ''hello'']) \<noteq> ''user'') \<and>
   fst (getAI fresh_world) = Inr () \<and>
   events (generateResponse (answering ''ok'') [bot_msg ''hello''] None 0 fresh_world) = [] \<and>
   outcome (generateResponse (answering ''ok'') [bot_msg ''hello''] None 0 fresh_world) =
     Inl (new_Error ''Failed to generate response: Last message must be from user'') \<and>
   fst (getAI keyless_world) \<noteq> Inr () \<and>
   outcome (generateResponse (answering ''ok'') [bot_msg ''hello''] None 0 keyless_world) =
     Inl (new_Error ''Invalid or missing Gemini API key. Please check your configuration.'')"
proof -
  have h: "[bot_msg ''hello''] = [] \<or> role (last [bot_msg ''hello'']) \<noteq> ''user''"
    by (simp add: msg_fields)
  have k: "fst (getAI keyless_world) \<noteq> Inr ()"
    by (simp add: getAI_def keyless_world_def)
  show ?thesis
    using h k fresh_client
      invalid_history_without_provider [OF h, of "answering ''ok''" None 0 fresh_world]
      invalid_history_without_provider [OF h, of "answering ''ok''" None 0 keyless_world]
    by simp
qed

text \<open>
  The claim C2 as stated fails: on the empty history, in a process without the API key, the
  error thrown is the API-key error and not an error about the history, wrapped or not.
\<close>

theorem invalid_history_counterexample:
  "outcome (generateResponse (answering ''ok'') [] None 0 keyless_world) =
     Inl (new_Error ''Invalid or missing Gemini API key. Please check your configuration.'') \<and>
   outcome (generateResponse (answering ''ok'') [] None 0 keyless_world) \<noteq>
     Inl (new_Error ''No messages to process'') \<and>
   outcome (generateResponse (answering ''ok'') [] None 0 keyless_world) \<noteq>
     Inl (new_Error ''Failed to generate response: No messages to process'')"
proof -
  have k: "fst (getAI keyless_world) \<noteq> Inr ()"
    by (simp add: getAI_def keyless_world_def)
  have "generateResponse (answering ''ok'') [] None 0 keyless_world =
      (Inl (specific_error (new_Error ''GEMINI_API_KEY environment variable is not set'')), [],
       keyless_world)"
    using k by (simp add: generateResponse_stop try_body_no_client not_retryable_checks)
  then show ?thesis by (simp add: outcome_def specific_error_checks new_Error_eq)
qed


text \<open>
  Claim C6. When the client is available and the history ends in a \<open>user\<close> message, the first
  thing a call does is to request a session whose prior turns are the window without its
  last entry, converted: as many turns, in the same order, each with the content of its
  message, \<open>user\<close> for a \<open>user\<close> message and \<open>model\<close> for an \<open>assistant\<close> message. Unless that
  request throws, the content of the window's last message is sent next.
\<close>

theorem history_conversion:
  assumes "fst (getAI w) = Inr ()" "messages \<noteq> []" "role (last messages) = ''user''"
  shows "\<exists>p rest.
     events (generateResponse P messages usr a w) = ChatCreate p # rest \<and>
     history p = convertToGeminiHistory (butlast (trimChatHistory messages)) \<and>
     length (history p) = length (trimChatHistory messages) - 1 \<and>
     (\<forall>i < length (history p).
        parts (history p ! i) = [\<lparr>text_of = content (trimChatHistory messages ! i)\<rparr>] \<and>
        (role (trimChatHistory messages ! i) = ''user'' \<longrightarrow> turn_role (history p ! i) = ''user'') \<and>
        (role (trimChatHistory messages ! i) = ''assistant'' \<longrightarrow>
           turn_role (history p ! i) = ''model'')) \<and>
     (chats_create P (served w) p = None \<longrightarrow>
        (\<exists>rest'. rest = SendMessage (content (last (trimChatHistory messages))) # rest'))"
proof -
  let ?W = "trimChatHistory messages"
  obtain p where hp: "history p = convertToGeminiHistory (butlast ?W)"
    and ep: "events (try_body P messages usr a w) =
               ChatCreate p # (if chats_create P (served w) p = None
                               then [SendMessage (content (last messages))] else [])"
    using try_body_provider [OF assms, of a usr P] by blast
  obtain tl where tl: "events (generateResponse P messages usr a w) =
      events (try_body P messages usr a w) @ tl"
    using generateResponse_events_prefix [of P messages usr a w] by (auto simp: prefix_def)
  define rest where "rest = (if chats_create P (served w) p = None
                               then [SendMessage (content (last messages))] else []) @ tl"
  have e: "events (generateResponse P messages usr a w) = ChatCreate p # rest"
    by (simp add: tl ep rest_def)
  have len: "length (history p) = length ?W - 1"
    by (simp add: hp convertToGeminiHistory_def)
  have each: "\<forall>i < length (history p).
        parts (history p ! i) = [\<lparr>text_of = content (?W ! i)\<rparr>] \<and>
        (role (?W ! i) = ''user'' \<longrightarrow> turn_role (history p ! i) = ''user'') \<and>
        (role (?W ! i) = ''assistant'' \<longrightarrow> turn_role (history p ! i) = ''model'')"
    by (simp add: hp convertToGeminiHistory_def nth_butlast)
  have sent: "chats_create P (served w) p = None \<longrightarrow>
        (\<exists>rest'. rest = SendMessage (content (last ?W)) # rest')"
    using assms(2) by (simp add: rest_def trim_last)
  have body: "events (generateResponse P messages usr a w) = ChatCreate p # rest \<and>
     history p = convertToGeminiHistory (butlast ?W) \<and>
     length (history p) = length ?W - 1 \<and>
     (\<forall>i < length (history p).
        parts (history p ! i) = [\<lparr>text_of = content (?W ! i)\<rparr>] \<and>
        (role (?W ! i) = ''user'' \<longrightarrow> turn_role (history p ! i) = ''user'') \<and>
        (role (?W ! i) = ''assistant'' \<longrightarrow> turn_role (history p ! i) = ''model'')) \<and>
     (chats_create P (served w) p = None \<longrightarrow>
        (\<exists>rest'. rest = SendMessage (content (last ?W)) # rest'))"
    using e hp len each sent by (intro conjI)
  show ?thesis by (rule exI [of _ p], rule exI [of _ rest]) (rule body)
qed

theorem history_conversion_witness:
  "fst (getAI fresh_world) = Inr () \<and>
   [user_msg ''q1'', \<lparr>role = ''assistant'', content = ''a1''\<rparr>, user_msg ''q2''] \<noteq> [] \<and>
   role (last [user_msg ''q1'', \<lparr>role = ''assistant'', content = ''a1''\<rparr>, user_msg ''q2'']) = ''user'' \<and>
   (\<exists>p rest.
      events (generateResponse (answering ''ok'')
        [user_msg ''q1'', \<lparr>role = ''assistant'', content = ''a1''\<rparr>, user_msg ''q2''] None 0 fresh_world)
        = ChatCreate p # SendMessage ''q2'' # rest \<and>
      history p = [\<lparr>turn_role = ''user'', parts = [\<lparr>text_of = ''q1''\<rparr>]\<rparr>,
                   \<lparr>turn_role = ''model'', parts = [\<lparr>text_of = ''a1''\<rparr>]\<rparr>])"
proof -
  let ?ms = "[user_msg ''q1'', \<lparr>role = ''assistant'', content = ''a1''\<rparr>, user_msg ''q2'']"
  have h2: "?ms \<noteq> []" by simp
  have h3: "role (last ?ms) = ''user''" by (simp add: msg_fields)
  have t: "trimChatHistory ?ms = ?ms" by (simp add: trimChatHistory_def MAX_HISTORY_MESSAGES_def)
  have c: "chats_create (answering ''ok'') n p = None" for n p by (simp add: answering_def)
  obtain p rest where pr:
    "events (generateResponse (answering ''ok'') ?ms None 0 fresh_world) = ChatCreate p # rest \<and>
     history p = convertToGeminiHistory (butlast (trimChatHistory ?ms)) \<and>
     length (history p) = length (trimChatHistory ?ms) - 1 \<and>
     (\<forall>i < length (history p).
        parts (history p ! i) = [\<lparr>text_of = content (trimChatHistory ?ms ! i)\<rparr>] \<and>
        (role (trimChatHistory ?ms ! i) = ''user'' \<longrightarrow> turn_role (history p ! i) = ''user'') \<and>
        (role (trimChatHistory ?ms ! i) = ''assistant'' \<longrightarrow>
           turn_role (history p ! i) = ''model'')) \<and>
     (chats_create (answering ''ok'') (served fresh_world) p = None \<longrightarrow>
        (\<exists>rest'. rest = SendMessage (content (last (trimChatHistory ?ms))) # rest'))"
    using history_conversion [OF fresh_client h2 h3, of "answering ''ok''" None 0]
    by (elim exE) (rule that)
  from pr have "events (generateResponse (answering ''ok'') ?ms None 0 fresh_world) = ChatCreate p # rest"
    and "history p = convertToGeminiHistory (butlast (trimChatHistory ?ms))"
    and "\<exists>rest'. rest = SendMessage (content (last (trimChatHistory ?ms))) # rest'"
    by (simp_all only: c simp_thms)
  then have "\<exists>rest'. events (generateResponse (answering ''ok'') ?ms None 0 fresh_world)
                 = ChatCreate p # SendMessage ''q2'' # rest' \<and>
      history p = [\<lparr>turn_role = ''user'', parts = [\<lparr>text_of = ''q1''\<rparr>]\<rparr>,
                   \<lparr>turn_role = ''model'', parts = [\<lparr>text_of = ''a1''\<rparr>]\<rparr>]"
    by (auto simp: t msg_fields convertToGeminiHistory_def)
  then obtain rest' where
    "events (generateResponse (answering ''ok'') ?ms None 0 fresh_world)
        = ChatCreate p # SendMessage ''q2'' # rest' \<and>
      history p = [\<lparr>turn_role = ''user'', parts = [\<lparr>text_of = ''q1''\<rparr>]\<rparr>,
                   \<lparr>turn_role = ''model'', parts = [\<lparr>text_of = ''a1''\<rparr>]\<rparr>]"
    by (elim exE)
  then have "\<exists>p rest.
      events (generateResponse (answering ''ok'') ?ms None 0 fresh_world)
        = ChatCreate p # SendMessage ''q2'' # rest \<and>
      history p = [\<lparr>turn_role = ''user'', parts = [\<lparr>text_of = ''q1''\<rparr>]\<rparr>,
                   \<lparr>turn_role = ''model'', parts = [\<lparr>text_of = ''a1''\<rparr>]\<rparr>]"
    by (intro exI)
  then show ?thesis using fresh_client h2 h3 by (intro conjI)
qed


lemma try_failing:
  "fst (getAI w) = Inr () \<Longrightarrow>
   try_body (failing e) [user_msg c] None a w =
     (Inl e, [ChatCreate (plain_params a []), SendMessage c],
      w\<lparr>ai := True, served := served w + 1\<rparr>)"
  by (simp add: try_body_def getAI_Inr trimChatHistory_def MAX_HISTORY_MESSAGES_def msg_fields
      failing_def plain_params_def buildPersonalizedPrompt_None convertToGeminiHistory_def)

lemma client_stays: "ai w \<Longrightarrow> fst (getAI w) = Inr ()"
  by (simp add: getAI_def)

lemma generateResponse_retry_to:
  assumes "try_body P ms u a w = (Inl e, evs, w')" "isRetryable e" "a < MAX_RETRIES" "b = a + 1"
    and "generateResponse P ms u b w' = (r, evs', w'')"
  shows "generateResponse P ms u a w = (r, evs @ [SetTimeout (2 ^ a * 1000)] @ evs', w'')"
  using generateResponse_retry [OF assms(1-3)] assms(4,5) by simp

text \<open>A retryable error on every attempt: four sessions, three delays, then the specific error.\<close>

lemma failing_run:
  assumes r: "isRetryable e" and c: "fst (getAI w) = Inr ()"
  shows "outcome (generateResponse (failing e) [user_msg c0] None 0 w) = Inl (specific_error e)"
    and "delays (events (generateResponse (failing e) [user_msg c0] None 0 w)) = [1000, 2000, 4000]"
    and "sessions (events (generateResponse (failing e) [user_msg c0] None 0 w)) =
           [plain_params 0 [], plain_params 1 [], plain_params 2 [], plain_params 3 []]"
proof -
  let ?g = "generateResponse (failing e) [user_msg c0] None"
  let ?t = "\<lambda>a. [ChatCreate (plain_params a []), SendMessage c0]"
  define w1 where "w1 = w\<lparr>ai := True, served := served w + 1\<rparr>"
  define w2 where "w2 = w1\<lparr>ai := True, served := served w1 + 1\<rparr>"
  define w3 where "w3 = w2\<lparr>ai := True, served := served w2 + 1\<rparr>"
  define w4 where "w4 = w3\<lparr>ai := True, served := served w3 + 1\<rparr>"
  have c1: "fst (getAI w1) = Inr ()" by (rule client_stays) (simp add: w1_def)
  have c2: "fst (getAI w2) = Inr ()" by (rule client_stays) (simp add: w2_def)
  have c3: "fst (getAI w3) = Inr ()" by (rule client_stays) (simp add: w3_def)
  have t0: "try_body (failing e) [user_msg c0] None 0 w = (Inl e, ?t 0, w1)"
    unfolding w1_def by (rule try_failing [OF c])
  have t1: "try_body (failing e) [user_msg c0] None 1 w1 = (Inl e, ?t 1, w2)"
    unfolding w2_def by (rule try_failing [OF c1])
  have t2: "try_body (failing e) [user_msg c0] None 2 w2 = (Inl e, ?t 2, w3)"
    unfolding w3_def by (rule try_failing [OF c2])
  have t3: "try_body (failing e) [user_msg c0] None 3 w3 = (Inl e, ?t 3, w4)"
    unfolding w4_def by (rule try_failing [OF c3])
  have g3: "?g 3 w3 = (Inl (specific_error e), ?t 3, w4)"
    by (rule generateResponse_stop [OF t3]) (simp add: MAX_RETRIES_def)
  have g2: "?g 2 w2 = (Inl (specific_error e), ?t 2 @ [SetTimeout (2 ^ 2 * 1000)] @ ?t 3, w4)"
    by (rule generateResponse_retry_to [OF t2 r _ _ g3]) (simp_all add: MAX_RETRIES_def)
  have g1: "?g 1 w1 = (Inl (specific_error e),
      ?t 1 @ [SetTimeout (2 ^ 1 * 1000)] @ ?t 2 @ [SetTimeout (2 ^ 2 * 1000)] @ ?t 3, w4)"
    by (rule generateResponse_retry_to [OF t1 r _ _ g2]) (simp_all add: MAX_RETRIES_def)
  have g0: "?g 0 w = (Inl (specific_error e),
      ?t 0 @ [SetTimeout (2 ^ 0 * 1000)] @ ?t 1 @ [SetTimeout (2 ^ 1 * 1000)] @ ?t 2
        @ [SetTimeout (2 ^ 2 * 1000)] @ ?t 3, w4)"
    by (rule generateResponse_retry_to [OF t0 r _ _ g1]) (simp_all add: MAX_RETRIES_def)
  show "outcome (?g 0 w) = Inl (specific_error e)" by (simp add: g0 outcome_def)
  show "delays (events (?g 0 w)) = [1000, 2000, 4000]" by (simp add: g0 events_def)
  show "sessions (events (?g 0 w)) =
           [plain_params 0 [], plain_params 1 [], plain_params 2 [], plain_params 3 []]"
    by (simp add: g0 events_def)
qed

text \<open>
  Claim C3. If attempt \<open>a < 3\<close> ends in a retryable error, the call waits \<open>2 ^ a * 1000\<close>
  milliseconds and continues as the call with attempt \<open>a + 1\<close> on the same messages and user,
  from the state the attempt left. From attempt 3 on nothing is waited for and at most one
  session is requested. A call from attempt 0 waits for a prefix of 1000, 2000, 4000
  milliseconds and requests at most 4 sessions.
\<close>

theorem retry_backoff:
  "(\<forall>e evs w'. try_body P messages usr a w = (Inl e, evs, w') \<and> isRetryable e \<and> a < 3 \<longrightarrow>
      generateResponse P messages usr a w =
        (case generateResponse P messages usr (a + 1) w' of
           (r, evs', w'') \<Rightarrow> (r, evs @ [SetTimeout (2 ^ a * 1000)] @ evs', w''))) \<and>
   (3 \<le> a \<longrightarrow> delays (events (generateResponse P messages usr a w)) = [] \<and>
              length (sessions (events (generateResponse P messages usr a w))) \<le> 1) \<and>
   prefix (delays (events (generateResponse P messages usr 0 w))) [1000, 2000, 4000] \<and>
   length (sessions (events (generateResponse P messages usr 0 w))) \<le> 4"
proof -
  have step: "\<forall>e evs w'. try_body P messages usr a w = (Inl e, evs, w') \<and> isRetryable e \<and> a < 3 \<longrightarrow>
      generateResponse P messages usr a w =
        (case generateResponse P messages usr (a + 1) w' of
           (r, evs', w'') \<Rightarrow> (r, evs @ [SetTimeout (2 ^ a * 1000)] @ evs', w''))"
    using generateResponse_retry [of P messages usr a w] by (simp add: MAX_RETRIES_def)
  have last: "3 \<le> a \<longrightarrow> delays (events (generateResponse P messages usr a w)) = [] \<and>
              length (sessions (events (generateResponse P messages usr a w))) \<le> 1"
  proof
    assume "3 \<le> a"
    then have "MAX_RETRIES - a = 0" and "[a ..< MAX_RETRIES] = []" by (simp_all add: MAX_RETRIES_def)
    then show "delays (events (generateResponse P messages usr a w)) = [] \<and>
              length (sessions (events (generateResponse P messages usr a w))) \<le> 1"
      using generateResponse_delays [of P messages usr a w]
        generateResponse_sessions [of P messages usr a w] by simp
  qed
  have "map (\<lambda>k. 2 ^ k * 1000) [0 ..< MAX_RETRIES] = [1000, 2000, 4000::nat]"
    by (simp add: MAX_RETRIES_def upt_rec)
  then have pre: "prefix (delays (events (generateResponse P messages usr 0 w))) [1000, 2000, 4000]"
    using generateResponse_delays [of P messages usr 0 w] by simp
  have four: "length (sessions (events (generateResponse P messages usr 0 w))) \<le> 4"
    using generateResponse_sessions [of P messages usr 0 w] by (simp add: MAX_RETRIES_def)
  show ?thesis using step last pre four by (intro conjI)
qed


lemma overloaded_retryable: "isRetryable overloaded_error"
  by (simp add: isRetryable_def overloaded_error_def errorStatus_def)

theorem retry_backoff_witness:
  "(try_body (failing overloaded_error) [user_msg ''hi''] None 1 fresh_world =
     (Inl overloaded_error, [ChatCreate (plain_params 1 []), SendMessage ''hi''],
      fresh_world\<lparr>ai := True, served := served fresh_world + 1\<rparr>) \<and>
    isRetryable overloaded_error \<and> (1::nat) < 3) \<and>
   generateResponse (failing overloaded_error) [user_msg ''hi''] None 1 fresh_world =
     (case generateResponse (failing overloaded_error) [user_msg ''hi''] None (1 + 1)
             (fresh_world\<lparr>ai := True, served := served fresh_world + 1\<rparr>) of
        (r, evs', w'') \<Rightarrow>
          (r, [ChatCreate (plain_params 1 []), SendMessage ''hi''] @ [SetTimeout (2 ^ 1 * 1000)] @ evs',
           w'')) \<and>
   (3::nat) \<le> 3 \<and>
   delays (events (generateResponse (failing overloaded_error) [user_msg ''hi''] None 3 fresh_world)) = []"
proof -
  have h: "try_body (failing overloaded_error) [user_msg ''hi''] None 1 fresh_world =
     (Inl overloaded_error, [ChatCreate (plain_params 1 []), SendMessage ''hi''],
      fresh_world\<lparr>ai := True, served := served fresh_world + 1\<rparr>) \<and>
    isRetryable overloaded_error \<and> (1::nat) < 3"
    using try_failing [OF fresh_client, of overloaded_error "''hi''" 1] overloaded_retryable by simp
  note rb = retry_backoff [of "failing overloaded_error" "[user_msg ''hi'']" None 1 fresh_world]
  note step = rb [THEN conjunct1, THEN spec, THEN spec, THEN spec, THEN mp, OF h]
  have h3: "(3::nat) \<le> 3" by simp
  note rb3 = retry_backoff [of "failing overloaded_error" "[user_msg ''hi'']" None 3 fresh_world]
  note d3 = rb3 [THEN conjunct2, THEN conjunct1, THEN mp, OF h3, THEN conjunct1]
  show ?thesis by (rule conjI [OF h conjI [OF step conjI [OF h3 d3]]])
qed


text \<open>
  Claim C8. The status the handler tests is \<^verbatim>\<open>error.status || error.statusCode\<close>: the field
  \<^verbatim>\<open>status\<close>, and the field \<^verbatim>\<open>statusCode\<close> only when \<^verbatim>\<open>status\<close> is absent, zero or the
  empty string. An error is retryable exactly when \<^verbatim>\<open>status\<close> is the number 503 or 429, or
  \<^verbatim>\<open>status\<close> is absent, zero or empty and \<^verbatim>\<open>statusCode\<close> is the number 503 or 429, or the
  message contains \<open>503\<close>, \<open>429\<close>, \<open>overloaded\<close>, \<open>UNAVAILABLE\<close> or \<open>rate limit\<close>; so a status
  500 hides a \<^verbatim>\<open>statusCode\<close> 503. An attempt ending in any other error ends the call with
  the specific error, without a delay or a further attempt. An error that is not retried and
  matches none of the patterns of the specific errors is thrown as
  \<open>Failed to generate response:\<close> followed by its message.
\<close>

theorem retryable_classification:
  "(isRetryable e \<longleftrightarrow>
      status e = Num 503 \<or> status e = Num 429 \<or>
      ((status e = Undefined \<or> status e = Num 0 \<or> status e = Str []) \<and>
       (statusCode e = Num 503 \<or> statusCode e = Num 429)) \<or>
      (\<exists>p q. message e = p @ ''503'' @ q) \<or>
      (\<exists>p q. message e = p @ ''429'' @ q) \<or>
      (\<exists>p q. message e = p @ ''overloaded'' @ q) \<or>
      (\<exists>p q. message e = p @ ''UNAVAILABLE'' @ q) \<or>
      (\<exists>p q. message e = p @ ''rate limit'' @ q)) \<and>
   (\<forall>evs w'. try_body P messages usr a w = (Inl e, evs, w') \<and> \<not> isRetryable e \<longrightarrow>
      generateResponse P messages usr a w = (Inl (specific_error e), evs, w')) \<and>
   (\<forall>evs w'. try_body P messages usr a w = (Inl e, evs, w') \<and> \<not> (isRetryable e \<and> a < 3) \<and>
      \<not> includes_str (message e) ''API key'' \<and> \<not> includes_str (message e) ''API_KEY'' \<and>
      \<not> includes_str (message e) ''quota'' \<and>
      \<not> includes_str (message e) ''safety'' \<and> \<not> includes_str (message e) ''SAFETY'' \<and>
      \<not> includes_str (message e) ''not found'' \<and> \<not> includes_str (message e) ''404'' \<and>
      status e \<noteq> Num 503 \<and> \<not> includes_str (message e) ''overloaded'' \<longrightarrow>
      generateResponse P messages usr a w =
        (Inl (new_Error (''Failed to generate response: '' @ message e)), evs, w'))"
proof -
  have cls: "isRetryable e \<longleftrightarrow>
      status e = Num 503 \<or> status e = Num 429 \<or>
      ((status e = Undefined \<or> status e = Num 0 \<or> status e = Str []) \<and>
       (statusCode e = Num 503 \<or> statusCode e = Num 429)) \<or>
      (\<exists>p q. message e = p @ ''503'' @ q) \<or>
      (\<exists>p q. message e = p @ ''429'' @ q) \<or>
      (\<exists>p q. message e = p @ ''overloaded'' @ q) \<or>
      (\<exists>p q. message e = p @ ''UNAVAILABLE'' @ q) \<or>
      (\<exists>p q. message e = p @ ''rate limit'' @ q)"
  proof -
    have st: "errorStatus e = Num 503 \<or> errorStatus e = Num 429 \<longleftrightarrow>
        status e = Num 503 \<or> status e = Num 429 \<or>
        ((status e = Undefined \<or> status e = Num 0 \<or> status e = Str []) \<and>
         (statusCode e = Num 503 \<or> statusCode e = Num 429))"
      by (cases "status e") (auto simp: errorStatus_def)
    show ?thesis unfolding isRetryable_def includes_str_iff using st by blast
  qed
  have fin: "\<forall>evs w'. try_body P messages usr a w = (Inl e, evs, w') \<and> \<not> isRetryable e \<longrightarrow>
      generateResponse P messages usr a w = (Inl (specific_error e), evs, w')"
    using generateResponse_stop [of P messages usr a w e] by simp
  have unk: "\<forall>evs w'. try_body P messages usr a w = (Inl e, evs, w') \<and> \<not> (isRetryable e \<and> a < 3) \<and>
      \<not> includes_str (message e) ''API key'' \<and> \<not> includes_str (message e) ''API_KEY'' \<and>
      \<not> includes_str (message e) ''quota'' \<and>
      \<not> includes_str (message e) ''safety'' \<and> \<not> includes_str (message e) ''SAFETY'' \<and>
      \<not> includes_str (message e) ''not found'' \<and> \<not> includes_str (message e) ''404'' \<and>
      status e \<noteq> Num 503 \<and> \<not> includes_str (message e) ''overloaded'' \<longrightarrow>
      generateResponse P messages usr a w =
        (Inl (new_Error (''Failed to generate response: '' @ message e)), evs, w')"
    using generateResponse_stop [of P messages usr a w e]
    by (simp add: specific_error_def MAX_RETRIES_def)
  show ?thesis by (rule conjI [OF cls conjI [OF fin unk]])
qed

lemma plain_checks:
  "\<not> isRetryable plain_error"
  "specific_error plain_error = new_Error ''Failed to generate response: Bad request''"
  by (simp_all add: isRetryable_def errorStatus_def specific_error_def plain_error_def)

theorem retryable_classification_witness:
  "(status unavailable_error = Num 503 \<and> isRetryable unavailable_error) \<and>
   (status code_only_error = Undefined \<and> statusCode code_only_error = Num 429 \<and>
    isRetryable code_only_error) \<and>
   (status masked_error = Num 500 \<and> statusCode masked_error = Num 503 \<and>
    \<not> isRetryable masked_error) \<and>
   delays (events (generateResponse (failing unavailable_error) [user_msg ''hi''] None 0 fresh_world))
     = [1000, 2000, 4000] \<and>
   (try_body (failing plain_error) [user_msg ''hi''] None 0 fresh_world =
      (Inl plain_error, [ChatCreate (plain_params 0 []), SendMessage ''hi''],
       fresh_world\<lparr>ai := True, served := served fresh_world + 1\<rparr>) \<and>
    \<not> isRetryable plain_error) \<and>
   generateResponse (failing plain_error) [user_msg ''hi''] None 0 fresh_world =
     (Inl (new_Error ''Failed to generate response: Bad request''),
      [ChatCreate (plain_params 0 []), SendMessage ''hi''],
      fresh_world\<lparr>ai := True, served := served fresh_world + 1\<rparr>)"
proof -
  note cls = retryable_classification [THEN conjunct1]
  have u: "status unavailable_error = Num 503 \<and> isRetryable unavailable_error"
    using cls [of unavailable_error] by (simp add: unavailable_error_def)
  have c: "status code_only_error = Undefined \<and> statusCode code_only_error = Num 429 \<and>
      isRetryable code_only_error"
    using cls [of code_only_error] by (simp add: code_only_error_def)
  have k: "status masked_error = Num 500 \<and> statusCode masked_error = Num 503 \<and>
      \<not> isRetryable masked_error"
    using cls [of masked_error, folded includes_str_iff] by (simp add: masked_error_def)
  have p: "\<not> isRetryable plain_error"
    using cls [of plain_error, folded includes_str_iff] by (simp add: plain_error_def)
  have d: "delays (events (generateResponse (failing unavailable_error) [user_msg ''hi''] None 0
      fresh_world)) = [1000, 2000, 4000]"
    using u by (simp add: failing_run(2) [OF _ fresh_client])
  have h: "try_body (failing plain_error) [user_msg ''hi''] None 0 fresh_world =
      (Inl plain_error, [ChatCreate (plain_params 0 []), SendMessage ''hi''],
       fresh_world\<lparr>ai := True, served := served fresh_world + 1\<rparr>) \<and>
    \<not> isRetryable plain_error"
    using try_failing [OF fresh_client, of plain_error "''hi''" 0] p by simp
  note rc = retryable_classification [of plain_error "failing plain_error" "[user_msg ''hi'']" None 0
      fresh_world]
  note stop = rc [THEN conjunct2, THEN conjunct1, THEN spec, THEN spec, THEN mp, OF h]
  have g: "generateResponse (failing plain_error) [user_msg ''hi''] None 0 fresh_world =
     (Inl (new_Error ''Failed to generate response: Bad request''),
      [ChatCreate (plain_params 0 []), SendMessage ''hi''],
      fresh_world\<lparr>ai := True, served := served fresh_world + 1\<rparr>)"
    using stop by (simp add: plain_checks(2))
  show ?thesis by (rule conjI [OF u conjI [OF c conjI [OF k conjI [OF d conjI [OF h g]]]]])
qed

lemma rate_limit_checks:
  "isRetryable rate_limit_error"
  "specific_error rate_limit_error = new_Error ''Failed to generate response: Too Many Requests''"
  by (simp_all add: isRetryable_def errorStatus_def specific_error_def rate_limit_error_def)

lemma overloaded_specific:
  "specific_error overloaded_error =
     new_Error ''AI service is currently busy. Please try again in a moment.''"
  by (simp add: specific_error_def overloaded_error_def)

text \<open>The scenario of the overloaded provider.\<close>

lemma overloaded_run:
  "outcome (generateResponse (failing overloaded_error) [user_msg ''What is a stack?''] None 0 fresh_world)
     = Inl (new_Error ''AI service is currently busy. Please try again in a moment.'') \<and>
   delays (events (generateResponse (failing overloaded_error) [user_msg ''What is a stack?''] None 0
     fresh_world)) = [1000, 2000, 4000]"
  using failing_run(1,2) [OF overloaded_retryable fresh_client, of "''What is a stack?''"]
  by (simp add: overloaded_specific)

text \<open>
  Claim C5 at a rate-limited provider: status 429 with the message \<open>Too Many Requests\<close> on
  every attempt. The error is retryable and is retried three times, after 1000, 2000 and 4000
  milliseconds; the fourth failure is thrown as \<open>Failed to generate response: Too Many Requests\<close>,
  not as the busy error, whose test reads only the status 503 and the word \<open>overloaded\<close>.
\<close>

theorem rate_limit_exhausted_not_busy:
  "isRetryable rate_limit_error \<and>
   delays (events (generateResponse (failing rate_limit_error) [user_msg ''hi''] None 0 fresh_world))
     = [1000, 2000, 4000] \<and>
   outcome (generateResponse (failing rate_limit_error) [user_msg ''hi''] None 0 fresh_world)
     = Inl (new_Error ''Failed to generate response: Too Many Requests'') \<and>
   outcome (generateResponse (failing rate_limit_error) [user_msg ''hi''] None 0 fresh_world)
     \<noteq> Inl (new_Error ''AI service is currently busy. Please try again in a moment.'')"
  using failing_run(1,2) [OF rate_limit_checks(1) fresh_client, of "''hi''"]
  by (simp add: rate_limit_checks new_Error_eq)

end
